theory Spec2Isabelle
  imports Main
begin

section \<open>Values, durations, failures\<close>

text \<open>
  A cache key is a string. A cached value is opaque to the library: the only thing the code
  tests is \<^verbatim>\<open>value === undefined\<close>, so a JavaScript value is an \<open>'v option\<close> with
  \<open>None\<close> for \<^verbatim>\<open>undefined\<close>. \<^verbatim>\<open>Milliseconds\<close> is \<^verbatim>\<open>number\<close>; the model takes the
  integers (no \<^verbatim>\<open>NaN\<close>, no \<^verbatim>\<open>Infinity\<close>), and an optional parameter is an \<open>option\<close>.

  Every operation of the sources is asynchronous. A promise is modelled by what it settles
  to: \<open>Inr x\<close> when it is fulfilled with \<open>x\<close>, \<open>Inl e\<close> when it is rejected with \<open>e\<close>.
\<close>

type_synonym key = string

type_synonym Milliseconds = int

datatype 'v error =
    NoCacheableValue "'v option"  \<comment> \<open>\<^verbatim>\<open>new Error(`no cacheable value ${JSON.stringify(value)}`)\<close>\<close>
  | Failure string                \<comment> \<open>anything else a store, a tier or a producer rejects with\<close>

subsection \<open>types.ts\<close>

datatype 'v WrapTTL = Fixed Milliseconds | Computed "'v option \<Rightarrow> Milliseconds"

record 'v WrapOptions =
  options_ttl :: "'v WrapTTL option"

record CacheOptions =
  refreshThreshold :: "Milliseconds option"

text \<open>
  The \<^verbatim>\<open>Store\<close> type is an interface. Its implementations keep their data somewhere; that
  somewhere is the state \<open>'s\<close>, and a method takes the state it finds and returns, with what
  its promise settles to, the state it leaves.
\<close>

record ('s, 'v) Store =
  store_name :: string
  store_get :: "key \<Rightarrow> 's \<Rightarrow> ('v error + 'v option) \<times> 's"
  store_set :: "key \<Rightarrow> 'v option \<Rightarrow> Milliseconds option \<Rightarrow> 's \<Rightarrow> ('v error + unit) \<times> 's"
  store_del :: "key \<Rightarrow> 's \<Rightarrow> ('v error + unit) \<times> 's"
  store_reset :: "'s \<Rightarrow> ('v error + unit) \<times> 's"
  store_setMany :: "(key \<times> 'v option) list \<Rightarrow> Milliseconds option \<Rightarrow> 's \<Rightarrow> ('v error + unit) \<times> 's"
  store_getMany :: "key list \<Rightarrow> 's \<Rightarrow> ('v error + 'v option list) \<times> 's"
  store_delMany :: "key list \<Rightarrow> 's \<Rightarrow> ('v error + unit) \<times> 's"
  store_keys :: "string option \<Rightarrow> 's \<Rightarrow> ('v error + key list) \<times> 's"
  store_ttl :: "key \<Rightarrow> 's \<Rightarrow> ('v error + Milliseconds) \<times> 's"

text \<open>
  The function handed to \<^verbatim>\<open>wrap\<close>, \<^verbatim>\<open>() => Promise<T>\<close>. It may do anything to the state.
  A call \<^verbatim>\<open>fn()\<close> either throws before it returns, or returns a promise, which settles.
  \<^verbatim>\<open>await fn()\<close> does not tell the two failures apart; \<^verbatim>\<open>fn().then(...)\<close> does: the throw
  leaves the statement, the rejection stays on the promise.
\<close>

datatype 'v called = Throws "'v error" | Returns "'v error + 'v option"

type_synonym ('s, 'v) producer = "'s \<Rightarrow> 'v called \<times> 's"

text \<open>\<^verbatim>\<open>await fn()\<close>\<close>

definition awaited :: "('s, 'v) producer \<Rightarrow> 's \<Rightarrow> ('v error + 'v option) \<times> 's" where
  "awaited fn s = (case fn s of (Throws e, s') \<Rightarrow> (Inl e, s') | (Returns p, s') \<Rightarrow> (p, s'))"

record ('s, 'v) Cache =
  cache_set :: "key \<Rightarrow> 'v option \<Rightarrow> Milliseconds option \<Rightarrow> 's \<Rightarrow> ('v error + unit) \<times> 's"
  cache_get :: "key \<Rightarrow> 's \<Rightarrow> ('v error + 'v option) \<times> 's"
  cache_del :: "key \<Rightarrow> 's \<Rightarrow> ('v error + unit) \<times> 's"
  cache_reset :: "'s \<Rightarrow> ('v error + unit) \<times> 's"
  cache_wrap :: "key \<Rightarrow> ('s, 'v) producer \<Rightarrow> 'v WrapOptions option \<Rightarrow> 's \<Rightarrow> ('v error + 'v option) \<times> 's"
  cache_store :: "('s, 'v) Store"

subsection \<open>utils.ts\<close>

text \<open>\<^verbatim>\<open>typeof ttl === 'function' ? ttl(item) : ttl\<close>\<close>

fun resolveTTL :: "'v option \<Rightarrow> 'v WrapTTL option \<Rightarrow> Milliseconds option" where
  "resolveTTL item (Some (Computed f)) = Some (f item)"
| "resolveTTL item (Some (Fixed t)) = Some t"
| "resolveTTL item None = None"

text \<open>\<^verbatim>\<open>options?.ttl\<close>\<close>

definition optional_ttl :: "'v WrapOptions option \<Rightarrow> 'v WrapTTL option" where
  "optional_ttl options = (case options of None \<Rightarrow> None | Some given \<Rightarrow> options_ttl given)"

section \<open>What a call does to the world\<close>

text \<open>
  The properties of interest are about which collaborator is called, with what, and how
  often. The model therefore runs over a world that holds, next to the state of the
  stores, the calls issued so far (oldest first) and the rejections that ended on a promise
  nobody handles. One call of the library runs to its end with no other task interleaved,
  and a store's method takes effect when it is called.
\<close>

datatype 'v event =
    StoreGet key
  | StoreSet key "'v option" "Milliseconds option"
  | StoreTtl key
  | Producer
  | CacheGet nat key
  | CacheSet nat key "'v option" "Milliseconds option"
  | CacheDel nat key
  | CacheReset nat
  | CacheWrap nat key
  | GetMany nat "key list"
  | SetMany nat "(key \<times> 'v option) list" "Milliseconds option"
  | DelMany nat "key list"

record ('s, 'v) world =
  state :: 's
  calls :: "'v event list"
  unhandled :: "'v error list"

text \<open>A call to a collaborator: it is recorded, and it runs on the state.\<close>

definition invoke :: "'v event \<Rightarrow> ('s \<Rightarrow> 'r \<times> 's) \<Rightarrow> ('s, 'v) world \<Rightarrow> 'r \<times> ('s, 'v) world" where
  "invoke ev op w = (case op (state w) of (r, s') \<Rightarrow> (r, w\<lparr>state := s', calls := calls w @ [ev]\<rparr>))"

text \<open>
  A promise that is started and not awaited (\<^verbatim>\<open>p.then(...)\<close> as a statement): its value is
  dropped, and its rejection has no handler.
\<close>

definition detach :: "(('s, 'v) world \<Rightarrow> ('v error + 'r) \<times> ('s, 'v) world) \<Rightarrow> ('s, 'v) world \<Rightarrow> ('s, 'v) world" where
  "detach p w = (case p w of
       (Inl e, w') \<Rightarrow> w'\<lparr>unhandled := unhandled w' @ [e]\<rparr>
     | (Inr _, w') \<Rightarrow> w')"

text \<open>
  \<^verbatim>\<open>coalesceAsync\<close> comes from the package promise-coalesce. With one call running at a
  time no execution for the key is in flight when it is entered, and it runs the function
  it is given and settles as that function does. The package keeps the executions in flight
  in one table for the whole process: a \<^verbatim>\<open>wrap\<close> started for a key from inside an execution
  for that key (the \<^verbatim>\<open>wrap\<close> of a tier that the tiered \<^verbatim>\<open>wrap\<close> starts on a hit) joins that
  execution there and does not run its own function, where this definition runs it. The
  properties below speak of the call being issued, never of what it does.
\<close>

definition coalesceAsync :: "key \<Rightarrow> (('s, 'v) world \<Rightarrow> 'r \<times> ('s, 'v) world) \<Rightarrow> ('s, 'v) world \<Rightarrow> 'r \<times> ('s, 'v) world" where
  "coalesceAsync key f = f"

text \<open>How often the producer has been invoked, and the writes that have been issued.\<close>

definition producerCalls :: "('s, 'v) world \<Rightarrow> nat" where
  "producerCalls w = length (filter (\<lambda>ev. ev = Producer) (calls w))"

fun is_write :: "'v event \<Rightarrow> bool" where
  "is_write (StoreSet k v t) = True"
| "is_write (CacheSet i k v t) = True"
| "is_write (SetMany i kvs t) = True"
| "is_write ev = False"

definition writes :: "('s, 'v) world \<Rightarrow> 'v event list" where
  "writes w = filter is_write (calls w)"

section \<open>caching.ts: the single-tier cache\<close>

text \<open>\<^verbatim>\<open>cacheOptions?.refreshThreshold\<close>, and its truthiness (\<^verbatim>\<open>undefined\<close> and \<^verbatim>\<open>0\<close> are falsy).\<close>

definition optional_refreshThreshold :: "CacheOptions option \<Rightarrow> Milliseconds option" where
  "optional_refreshThreshold cacheOptions =
     (case cacheOptions of None \<Rightarrow> None | Some given \<Rightarrow> refreshThreshold given)"

definition caching_wrap ::
  "('s, 'v) Store \<Rightarrow> CacheOptions option \<Rightarrow> key \<Rightarrow> ('s, 'v) producer \<Rightarrow> 'v WrapOptions option
     \<Rightarrow> ('s, 'v) world \<Rightarrow> ('v error + 'v option) \<times> ('s, 'v) world" where
  "caching_wrap store cacheOptions key fn options =
     coalesceAsync key (\<lambda>w.
       case invoke (StoreGet key) (store_get store key) w of
         (Inl e, w1) \<Rightarrow> (Inl e, w1)
       | (Inr None, w1) \<Rightarrow>
           (case invoke Producer (awaited fn) w1 of
              (Inl e, w2) \<Rightarrow> (Inl e, w2)
            | (Inr result, w2) \<Rightarrow>
                (let cacheTTL = resolveTTL result (optional_ttl options) in
                 case invoke (StoreSet key result cacheTTL) (store_set store key result cacheTTL) w2 of
                   (Inl e, w3) \<Rightarrow> (Inl e, w3)
                 | (Inr _, w3) \<Rightarrow> (Inr result, w3)))
       | (Inr (Some v), w1) \<Rightarrow>
           (case optional_refreshThreshold cacheOptions of
              None \<Rightarrow> (Inr (Some v), w1)
            | Some threshold \<Rightarrow>
                if threshold = 0 then (Inr (Some v), w1)
                else
                  (let cacheTTL = resolveTTL (Some v) (optional_ttl options) in
                   case invoke (StoreTtl key) (store_ttl store key) w1 of
                     (Inl e, w2) \<Rightarrow> (Inl e, w2)
                   | (Inr remainingTtl, w2) \<Rightarrow>
                       if remainingTtl \<noteq> - 1 \<and> remainingTtl < threshold
                       then
                         (case invoke Producer fn w2 of
                            (Throws e, w3) \<Rightarrow> (Inl e, w3)
                          | (Returns p, w3) \<Rightarrow>
                              (Inr (Some v),
                               detach (\<lambda>w. case p of
                                          Inl e \<Rightarrow> (Inl e, w)
                                        | Inr result \<Rightarrow>
                                            invoke (StoreSet key result cacheTTL)
                                              (store_set store key result cacheTTL) w) w3))
                       else (Inr (Some v), w2))))"

text \<open>A method seen from outside: what it left in the state, without the record of its calls.\<close>

definition quiet :: "(('s, 'v) world \<Rightarrow> 'r \<times> ('s, 'v) world) \<Rightarrow> 's \<Rightarrow> 'r \<times> 's" where
  "quiet f s = (case f \<lparr>state = s, calls = [], unhandled = []\<rparr> of (r, w) \<Rightarrow> (r, state w))"

definition caching :: "('s, 'v) Store \<Rightarrow> CacheOptions option \<Rightarrow> ('s, 'v) Cache" where
  "caching store cacheOptions =
     \<lparr> cache_set = store_set store,
       cache_get = store_get store,
       cache_del = store_del store,
       cache_reset = store_reset store,
       cache_wrap = (\<lambda>key fn options. quiet (caching_wrap store cacheOptions key fn options)),
       cache_store = store \<rparr>"

section \<open>multi-caching.ts: the tiered cache\<close>

text \<open>
  \<^verbatim>\<open>Promise.all(caches.map((cache) => ...))\<close>: \<^verbatim>\<open>map\<close> issues every call, in the order of the
  list, whether or not an earlier one is rejected; the whole settles to the list of the
  values, or to a rejection when one of the calls rejects (the one of lowest index here).
\<close>

fun promiseAll ::
  "('v event \<times> ('s \<Rightarrow> ('v error + 'r) \<times> 's)) list \<Rightarrow> ('s, 'v) world \<Rightarrow> ('v error + 'r list) \<times> ('s, 'v) world" where
  "promiseAll [] w = (Inr [], w)"
| "promiseAll ((ev, op) # rest) w =
     (case invoke ev op w of (r, w1) \<Rightarrow>
        (case promiseAll rest w1 of (rs, w2) \<Rightarrow>
           ((case r of
               Inl e \<Rightarrow> Inl e
             | Inr x \<Rightarrow> (case rs of Inl e' \<Rightarrow> Inl e' | Inr xs \<Rightarrow> Inr (x # xs))), w2)))"

text \<open>\<^verbatim>\<open>await Promise.all(...)\<close> in a function that returns nothing.\<close>

definition awaitAll ::
  "('v event \<times> ('s \<Rightarrow> ('v error + 'r) \<times> 's)) list \<Rightarrow> ('s, 'v) world \<Rightarrow> ('v error + unit) \<times> ('s, 'v) world" where
  "awaitAll ps w = (case promiseAll ps w of (Inl e, w') \<Rightarrow> (Inl e, w') | (Inr _, w') \<Rightarrow> (Inr (), w'))"

text \<open>The loop of \<^verbatim>\<open>get\<close>; the first argument is the index of the tier at the head of the list.\<close>

fun get_from :: "nat \<Rightarrow> ('s, 'v) Cache list \<Rightarrow> key \<Rightarrow> ('s, 'v) world \<Rightarrow> ('v error + 'v option) \<times> ('s, 'v) world" where
  "get_from i [] key w = (Inr None, w)"
| "get_from i (cache # rest) key w =
     (case invoke (CacheGet i key) (cache_get cache key) w of
        (Inr (Some val), w1) \<Rightarrow> (Inr (Some val), w1)
      | (Inr None, w1) \<Rightarrow> get_from (Suc i) rest key w1
      | (Inl e, w1) \<Rightarrow> get_from (Suc i) rest key w1)"

definition multiCaching_get :: "('s, 'v) Cache list \<Rightarrow> key \<Rightarrow> ('s, 'v) world \<Rightarrow> ('v error + 'v option) \<times> ('s, 'v) world" where
  "multiCaching_get caches key = get_from 0 caches key"

definition multiCaching_set ::
  "('s, 'v) Cache list \<Rightarrow> key \<Rightarrow> 'v option \<Rightarrow> Milliseconds option \<Rightarrow> ('s, 'v) world \<Rightarrow> ('v error + unit) \<times> ('s, 'v) world" where
  "multiCaching_set caches key data ttl =
     awaitAll (map (\<lambda>(i, cache). (CacheSet i key data ttl, cache_set cache key data ttl)) (enumerate 0 caches))"

definition multiCaching_del :: "('s, 'v) Cache list \<Rightarrow> key \<Rightarrow> ('s, 'v) world \<Rightarrow> ('v error + unit) \<times> ('s, 'v) world" where
  "multiCaching_del caches key =
     awaitAll (map (\<lambda>(i, cache). (CacheDel i key, cache_del cache key)) (enumerate 0 caches))"

definition multiCaching_reset :: "('s, 'v) Cache list \<Rightarrow> ('s, 'v) world \<Rightarrow> ('v error + unit) \<times> ('s, 'v) world" where
  "multiCaching_reset caches =
     awaitAll (map (\<lambda>(i, x). (CacheReset i, cache_reset x)) (enumerate 0 caches))"

text \<open>
  The loop of \<^verbatim>\<open>wrap\<close>: it leaves \<^verbatim>\<open>value\<close> and \<^verbatim>\<open>i\<close>, the index of the tier that answered
  or the length of the list.
\<close>

fun lookup_from :: "nat \<Rightarrow> ('s, 'v) Cache list \<Rightarrow> key \<Rightarrow> ('s, 'v) world \<Rightarrow> ('v option \<times> nat) \<times> ('s, 'v) world" where
  "lookup_from i [] key w = ((None, i), w)"
| "lookup_from i (cache # rest) key w =
     (case invoke (CacheGet i key) (cache_get cache key) w of
        (Inr (Some val), w1) \<Rightarrow> ((Some val, i), w1)
      | (Inr None, w1) \<Rightarrow> lookup_from (Suc i) rest key w1
      | (Inl e, w1) \<Rightarrow> lookup_from (Suc i) rest key w1)"

definition multiCaching_wrap ::
  "('s, 'v) Cache list \<Rightarrow> key \<Rightarrow> ('s, 'v) producer \<Rightarrow> 'v WrapOptions option
     \<Rightarrow> ('s, 'v) world \<Rightarrow> ('v error + 'v option) \<times> ('s, 'v) world" where
  "multiCaching_wrap caches key fn options =
     coalesceAsync key (\<lambda>w.
       case lookup_from 0 caches key w of
         ((None, i), w1) \<Rightarrow>
           (case invoke Producer (awaited fn) w1 of
              (Inl e, w2) \<Rightarrow> (Inl e, w2)
            | (Inr result, w2) \<Rightarrow>
                (let cacheTTL = resolveTTL result (optional_ttl options) in
                 case multiCaching_set caches key result cacheTTL w2 of
                   (Inl e, w3) \<Rightarrow> (Inl e, w3)
                 | (Inr _, w3) \<Rightarrow> (Inr result, w3)))
       | ((Some v, i), w1) \<Rightarrow>
           (let cacheTTL = resolveTTL (Some v) (optional_ttl options);
                w2 = detach (promiseAll (map (\<lambda>(j, cache). (CacheSet j key (Some v) cacheTTL,
                                                          cache_set cache key (Some v) cacheTTL))
                                          (enumerate 0 (take i caches)))) w1;
                w3 = detach (invoke (CacheWrap i key) (cache_wrap (caches ! i) key fn options)) w2
            in (Inr (Some v), w3)))"

text \<open>
  \<^verbatim>\<open>getMany\<close> fills an array of one slot per key. A tier may answer with more values than
  keys; the assignment \<^verbatim>\<open>values[i] = v\<close> past the end then extends the array, and the
  indices it skips are holes: \<^verbatim>\<open>values[i] === undefined\<close> holds of a hole, and \<^verbatim>\<open>every\<close>
  does not visit it.
\<close>

datatype 'v slot = Hole | Slot "'v option"

fun extend :: "'v option list \<Rightarrow> 'v slot list" where
  "extend [] = []"
| "extend (v # vs) =
     (case (v, extend vs) of
        (None, []) \<Rightarrow> []
      | (None, later) \<Rightarrow> Hole # later
      | (Some x, later) \<Rightarrow> Slot (Some x) # later)"

text \<open>\<^verbatim>\<open>val.forEach((v, i) => { if (values[i] === undefined && v !== undefined) values[i] = v; })\<close>\<close>

fun fill :: "'v slot list \<Rightarrow> 'v option list \<Rightarrow> 'v slot list" where
  "fill values [] = values"
| "fill [] (v # vs) = extend (v # vs)"
| "fill (x # values) (v # vs) =
     (if (x = Hole \<or> x = Slot None) \<and> v \<noteq> None then Slot v else x) # fill values vs"

fun getMany_from ::
  "nat \<Rightarrow> ('s, 'v) Cache list \<Rightarrow> key list \<Rightarrow> 'v slot list \<Rightarrow> ('s, 'v) world \<Rightarrow> 'v slot list \<times> ('s, 'v) world" where
  "getMany_from i [] keys values w = (values, w)"
| "getMany_from i (cache # rest) keys values w =
     (if list_all (\<lambda>x. x \<noteq> Slot None) values then (values, w)
      else case invoke (GetMany i keys) (store_getMany (cache_store cache) keys) w of
             (Inl e, w1) \<Rightarrow> getMany_from (Suc i) rest keys values w1
           | (Inr val, w1) \<Rightarrow> getMany_from (Suc i) rest keys (fill values val) w1)"

definition multiCaching_getMany ::
  "('s, 'v) Cache list \<Rightarrow> key list \<Rightarrow> ('s, 'v) world \<Rightarrow> ('v error + 'v slot list) \<times> ('s, 'v) world" where
  "multiCaching_getMany caches keys w =
     (case getMany_from 0 caches keys (replicate (length keys) (Slot None)) w of
        (values, w') \<Rightarrow> (Inr values, w'))"

definition multiCaching_setMany ::
  "('s, 'v) Cache list \<Rightarrow> (key \<times> 'v option) list \<Rightarrow> Milliseconds option \<Rightarrow> ('s, 'v) world \<Rightarrow> ('v error + unit) \<times> ('s, 'v) world" where
  "multiCaching_setMany caches args ttl =
     awaitAll (map (\<lambda>(i, cache). (SetMany i args ttl, store_setMany (cache_store cache) args ttl)) (enumerate 0 caches))"

definition multiCaching_delMany :: "('s, 'v) Cache list \<Rightarrow> key list \<Rightarrow> ('s, 'v) world \<Rightarrow> ('v error + unit) \<times> ('s, 'v) world" where
  "multiCaching_delMany caches keys =
     awaitAll (map (\<lambda>(i, cache). (DelMany i keys, store_delMany (cache_store cache) keys)) (enumerate 0 caches))"

section \<open>stores/lru.ts: the store over lru-cache\<close>

text \<open>
  \<^verbatim>\<open>LRUCache\<close> is the class of the package lru-cache. The store only calls its methods, so
  the class is a parameter: a record of the methods the store uses, over the cache's state
  \<open>'c\<close>. \<open>lru_set key value ttl\<close> stands for \<^verbatim>\<open>lruCache.set(key, value, { ttl })\<close>. The
  methods are taken to return normally; what they return and what they do to the cache is
  left open.
\<close>

record ('c, 'v) LRUCache =
  lru_get :: "key \<Rightarrow> 'c \<Rightarrow> 'v option \<times> 'c"
  lru_set :: "key \<Rightarrow> 'v option \<Rightarrow> Milliseconds \<Rightarrow> 'c \<Rightarrow> 'c"
  lru_delete :: "key \<Rightarrow> 'c \<Rightarrow> 'c"
  lru_clear :: "'c \<Rightarrow> 'c"
  lru_keys :: "'c \<Rightarrow> key list"
  lru_getRemainingTTL :: "key \<Rightarrow> 'c \<Rightarrow> Milliseconds"

record 'v LRUConfig =
  shouldCloneBeforeSet :: "bool option"
  isCacheable :: "('v option \<Rightarrow> bool) option"
  config_max :: "int option"
  config_ttl :: "Milliseconds option"

text \<open>
  \<^verbatim>\<open>clone\<close> deep-copies an object so that the cache does not share it with the caller. A
  value of HOL has no identity, and its copy is the value.
\<close>

definition clone :: "'v option \<Rightarrow> 'v option" where
  "clone object = object"

text \<open>\<^verbatim>\<open>args?.shouldCloneBeforeSet !== false\<close>\<close>

definition config_shouldCloneBeforeSet :: "'v LRUConfig option \<Rightarrow> bool" where
  "config_shouldCloneBeforeSet args =
     (case args of None \<Rightarrow> True | Some given \<Rightarrow> shouldCloneBeforeSet given \<noteq> Some False)"

text \<open>\<^verbatim>\<open>args?.isCacheable ?? ((val) => val !== undefined)\<close>\<close>

definition config_isCacheable :: "'v LRUConfig option \<Rightarrow> 'v option \<Rightarrow> bool" where
  "config_isCacheable args =
     (case (case args of None \<Rightarrow> None | Some given \<Rightarrow> isCacheable given) of
        None \<Rightarrow> (\<lambda>val. val \<noteq> None)
      | Some given \<Rightarrow> given)"

text \<open>\<^verbatim>\<open>lruOpts.max\<close> and \<^verbatim>\<open>lruOpts.ttl\<close>\<close>

definition lruOpts_max :: "'v LRUConfig option \<Rightarrow> int" where
  "lruOpts_max args =
     (case (case args of None \<Rightarrow> None | Some given \<Rightarrow> config_max given) of
        None \<Rightarrow> 500
      | Some m \<Rightarrow> if m = 0 then 500 else m)"

definition lruOpts_ttl :: "'v LRUConfig option \<Rightarrow> Milliseconds" where
  "lruOpts_ttl args =
     (case (case args of None \<Rightarrow> None | Some given \<Rightarrow> config_ttl given) of
        None \<Rightarrow> 0
      | Some t \<Rightarrow> t)"

definition lru_store_get :: "('c, 'v) LRUCache \<Rightarrow> key \<Rightarrow> 'c \<Rightarrow> ('v error + 'v option) \<times> 'c" where
  "lru_store_get lruCache key c = (case lru_get lruCache key c of (v, c') \<Rightarrow> (Inr v, c'))"

definition lru_store_del :: "('c, 'v) LRUCache \<Rightarrow> key \<Rightarrow> 'c \<Rightarrow> ('v error + unit) \<times> 'c" where
  "lru_store_del lruCache key c = (Inr (), lru_delete lruCache key c)"

text \<open>The pattern is not among the parameters of the function: \<^verbatim>\<open>keys: async () => [...lruCache.keys()]\<close>.\<close>

definition lru_store_keys :: "('c, 'v) LRUCache \<Rightarrow> string option \<Rightarrow> 'c \<Rightarrow> ('v error + key list) \<times> 'c" where
  "lru_store_keys lruCache pattern c = (Inr (lru_keys lruCache c), c)"

fun lru_store_getMany_loop :: "('c, 'v) LRUCache \<Rightarrow> key list \<Rightarrow> 'c \<Rightarrow> 'v option list \<times> 'c" where
  "lru_store_getMany_loop lruCache [] c = ([], c)"
| "lru_store_getMany_loop lruCache (x # args) c =
     (case lru_get lruCache x c of (v, c1) \<Rightarrow>
        (case lru_store_getMany_loop lruCache args c1 of (vs, c2) \<Rightarrow> (v # vs, c2)))"

definition lru_store_getMany :: "('c, 'v) LRUCache \<Rightarrow> key list \<Rightarrow> 'c \<Rightarrow> ('v error + 'v option list) \<times> 'c" where
  "lru_store_getMany lruCache args c = (case lru_store_getMany_loop lruCache args c of (vs, c') \<Rightarrow> (Inr vs, c'))"

text \<open>The loop of \<^verbatim>\<open>setMany\<close>, with \<^verbatim>\<open>opt.ttl\<close> as a parameter.\<close>

fun lru_store_setMany_loop ::
  "('c, 'v) LRUCache \<Rightarrow> 'v LRUConfig option \<Rightarrow> Milliseconds \<Rightarrow> (key \<times> 'v option) list \<Rightarrow> 'c \<Rightarrow> ('v error + unit) \<times> 'c" where
  "lru_store_setMany_loop lruCache args opt [] c = (Inr (), c)"
| "lru_store_setMany_loop lruCache args opt ((key, val) # rest) c =
     (if \<not> config_isCacheable args val then (Inl (NoCacheableValue val), c)
      else if config_shouldCloneBeforeSet args
      then lru_store_setMany_loop lruCache args opt rest (lru_set lruCache key (clone val) opt c)
      else lru_store_setMany_loop lruCache args opt rest (lru_set lruCache key val opt c))"

definition lru_store_setMany ::
  "('c, 'v) LRUCache \<Rightarrow> 'v LRUConfig option \<Rightarrow> (key \<times> 'v option) list \<Rightarrow> Milliseconds option \<Rightarrow> 'c \<Rightarrow> ('v error + unit) \<times> 'c" where
  "lru_store_setMany lruCache args entries ttl =
     lru_store_setMany_loop lruCache args (case ttl of Some t \<Rightarrow> t | None \<Rightarrow> lruOpts_ttl args) entries"

definition lru_store_delMany :: "('c, 'v) LRUCache \<Rightarrow> key list \<Rightarrow> 'c \<Rightarrow> ('v error + unit) \<times> 'c" where
  "lru_store_delMany lruCache args c = (Inr (), foldl (\<lambda>c' key. lru_delete lruCache key c') c args)"

definition lru_store_reset :: "('c, 'v) LRUCache \<Rightarrow> 'c \<Rightarrow> ('v error + unit) \<times> 'c" where
  "lru_store_reset lruCache c = (Inr (), lru_clear lruCache c)"

definition lru_store_ttl :: "('c, 'v) LRUCache \<Rightarrow> key \<Rightarrow> 'c \<Rightarrow> ('v error + Milliseconds) \<times> 'c" where
  "lru_store_ttl lruCache key c = (Inr (lru_getRemainingTTL lruCache key c), c)"

definition lru_store_set ::
  "('c, 'v) LRUCache \<Rightarrow> 'v LRUConfig option \<Rightarrow> key \<Rightarrow> 'v option \<Rightarrow> Milliseconds option \<Rightarrow> 'c \<Rightarrow> ('v error + unit) \<times> 'c" where
  "lru_store_set lruCache args key val opt c =
     (if \<not> config_isCacheable args val then (Inl (NoCacheableValue val), c)
      else
        (let val' = (if config_shouldCloneBeforeSet args then clone val else val);
             ttl = (case opt of Some t \<Rightarrow> t | None \<Rightarrow> lruOpts_ttl args)
         in (Inr (), lru_set lruCache key val' ttl c)))"

definition createLruStore :: "('c, 'v) LRUCache \<Rightarrow> 'v LRUConfig option \<Rightarrow> ('c, 'v) Store" where
  "createLruStore lruCache args =
     \<lparr> store_name = ''memory-lru'',
       store_get = lru_store_get lruCache,
       store_set = lru_store_set lruCache args,
       store_del = lru_store_del lruCache,
       store_reset = lru_store_reset lruCache,
       store_setMany = lru_store_setMany lruCache args,
       store_getMany = lru_store_getMany lruCache,
       store_delMany = lru_store_delMany lruCache,
       store_keys = lru_store_keys lruCache,
       store_ttl = lru_store_ttl lruCache \<rparr>"

section \<open>Vocabulary of the properties\<close>

text \<open>
  The tiers of a list are asked for a key one after the other, each in the state the one
  before left. \<open>after_gets\<close> is the state after all of them have been asked; \<open>all_miss\<close>
  says that each of them rejected or answered \<^verbatim>\<open>undefined\<close>; \<open>found_at\<close> says that the
  tier of index \<open>i\<close> is the first to answer a defined value, \<open>v\<close>.
\<close>

fun missed :: "('v error + 'v option) \<Rightarrow> bool" where
  "missed (Inr (Some v)) = False"
| "missed r = True"

fun after_gets :: "('s, 'v) Cache list \<Rightarrow> key \<Rightarrow> 's \<Rightarrow> 's" where
  "after_gets [] key s = s"
| "after_gets (cache # rest) key s = after_gets rest key (snd (cache_get cache key s))"

fun all_miss :: "('s, 'v) Cache list \<Rightarrow> key \<Rightarrow> 's \<Rightarrow> bool" where
  "all_miss [] key s = True"
| "all_miss (cache # rest) key s =
     (missed (fst (cache_get cache key s)) \<and> all_miss rest key (snd (cache_get cache key s)))"

definition found_at :: "('s, 'v) Cache list \<Rightarrow> key \<Rightarrow> 's \<Rightarrow> nat \<Rightarrow> 'v \<Rightarrow> bool" where
  "found_at caches key s i v =
     (i < length caches \<and> all_miss (take i caches) key s \<and>
      fst (cache_get (caches ! i) key (after_gets (take i caches) key s)) = Inr (Some v))"



text \<open>
  \<^verbatim>\<open>remainingTtl !== -1 && remainingTtl < cacheOptions?.refreshThreshold\<close>, under the guard
  that the threshold is truthy: the condition under which \<^verbatim>\<open>wrap\<close> refreshes a hit.
\<close>

definition refresh_due :: "CacheOptions option \<Rightarrow> Milliseconds \<Rightarrow> bool" where
  "refresh_due cacheOptions remainingTtl =
     (case optional_refreshThreshold cacheOptions of
        None \<Rightarrow> False
      | Some threshold \<Rightarrow> threshold \<noteq> 0 \<and> remainingTtl \<noteq> - 1 \<and> remainingTtl < threshold)"

text \<open>
  \<^verbatim>\<open>wrap\<close>, finding the key in the state \<open>s\<close>, starts no refresh: no truthy threshold is
  configured, or the store answers a remaining lifetime for which no refresh is due.
\<close>

definition no_refresh :: "('s, 'v) Store \<Rightarrow> CacheOptions option \<Rightarrow> key \<Rightarrow> 's \<Rightarrow> bool" where
  "no_refresh store cacheOptions key s =
     (case optional_refreshThreshold cacheOptions of
        None \<Rightarrow> True
      | Some threshold \<Rightarrow>
          threshold = 0 \<or>
          (case fst (store_ttl store key s) of
             Inl e \<Rightarrow> False
           | Inr remainingTtl \<Rightarrow> \<not> refresh_due cacheOptions remainingTtl))"

section \<open>Stores and tiers for the examples\<close>

text \<open>
  A store in the manner of the in-memory stores of the test suite, stopped at one instant:
  a table of rows (key, value, remaining lifetime), newest first. It refuses \<^verbatim>\<open>undefined\<close>
  as the LRU store does, and \<^verbatim>\<open>ttl\<close> answers the lifetime the key was written with, \<open>-1\<close>
  for a key written with none and \<open>-2\<close> for a key it does not hold, as Redis does.
\<close>

type_synonym 'v table = "(key \<times> 'v \<times> Milliseconds) list"

definition table_get :: "key \<Rightarrow> 'v table \<Rightarrow> ('v error + 'v option) \<times> 'v table" where
  "table_get k t = (Inr (map_option fst (map_of t k)), t)"

definition table_set :: "key \<Rightarrow> 'v option \<Rightarrow> Milliseconds option \<Rightarrow> 'v table \<Rightarrow> ('v error + unit) \<times> 'v table" where
  "table_set k val ttl t =
     (case val of
        None \<Rightarrow> (Inl (NoCacheableValue None), t)
      | Some x \<Rightarrow> (Inr (), (k, x, (case ttl of None \<Rightarrow> - 1 | Some d \<Rightarrow> d)) # filter (\<lambda>row. fst row \<noteq> k) t))"

definition table_del :: "key \<Rightarrow> 'v table \<Rightarrow> ('v error + unit) \<times> 'v table" where
  "table_del k t = (Inr (), filter (\<lambda>row. fst row \<noteq> k) t)"

fun table_setMany :: "(key \<times> 'v option) list \<Rightarrow> Milliseconds option \<Rightarrow> 'v table \<Rightarrow> ('v error + unit) \<times> 'v table" where
  "table_setMany [] ttl t = (Inr (), t)"
| "table_setMany ((k, val) # rest) ttl t =
     (case table_set k val ttl t of (Inl e, t') \<Rightarrow> (Inl e, t') | (Inr _, t') \<Rightarrow> table_setMany rest ttl t')"

definition table_ttl :: "key \<Rightarrow> 'v table \<Rightarrow> ('v error + Milliseconds) \<times> 'v table" where
  "table_ttl k t = (Inr (case map_of t k of None \<Rightarrow> - 2 | Some (x, d) \<Rightarrow> d), t)"

definition tableStore :: "('v table, 'v) Store" where
  "tableStore =
     \<lparr> store_name = ''table'',
       store_get = table_get,
       store_set = table_set,
       store_del = table_del,
       store_reset = (\<lambda>t. (Inr (), [])),
       store_setMany = table_setMany,
       store_getMany = (\<lambda>ks t. (Inr (map (\<lambda>k. map_option fst (map_of t k)) ks), t)),
       store_delMany = (\<lambda>ks t. (Inr (), filter (\<lambda>row. fst row \<notin> set ks) t)),
       store_keys = (\<lambda>pattern t. (Inr (map fst t), t)),
       store_ttl = table_ttl \<rparr>"

text \<open>Several such stores side by side: the state is the list of their tables.\<close>

definition at :: "nat \<Rightarrow> ('t \<Rightarrow> 'r \<times> 't) \<Rightarrow> 't list \<Rightarrow> 'r \<times> 't list" where
  "at i op ts = (case op (ts ! i) of (r, t') \<Rightarrow> (r, ts[i := t']))"

definition tableStoreAt :: "nat \<Rightarrow> ('v table list, 'v) Store" where
  "tableStoreAt i =
     \<lparr> store_name = ''table'',
       store_get = (\<lambda>k. at i (table_get k)),
       store_set = (\<lambda>k val ttl. at i (table_set k val ttl)),
       store_del = (\<lambda>k. at i (table_del k)),
       store_reset = at i (store_reset tableStore),
       store_setMany = (\<lambda>kvs ttl. at i (table_setMany kvs ttl)),
       store_getMany = (\<lambda>ks. at i (store_getMany tableStore ks)),
       store_delMany = (\<lambda>ks. at i (store_delMany tableStore ks)),
       store_keys = (\<lambda>pattern. at i (store_keys tableStore pattern)),
       store_ttl = (\<lambda>k. at i (table_ttl k)) \<rparr>"

definition memoryCache :: "nat \<Rightarrow> ('v table list, 'v) Cache" where
  "memoryCache i = caching (tableStoreAt i) None"

text \<open>
  The failing tier of the test suite: \<^verbatim>\<open>get\<close> throws, the other methods do nothing, and
  \<^verbatim>\<open>store\<close> is \<^verbatim>\<open>{}\<close>, so that a call of one of its methods throws a TypeError.
\<close>

definition failingCache :: "('s, 'v) Cache" where
  "failingCache =
     \<lparr> cache_set = (\<lambda>k val ttl s. (Inr (), s)),
       cache_get = (\<lambda>k s. (Inl (Failure ''Error''), s)),
       cache_del = (\<lambda>k s. (Inr (), s)),
       cache_reset = (\<lambda>s. (Inr (), s)),
       cache_wrap = (\<lambda>k fn options s. (Inr None, s)),
       cache_store =
         \<lparr> store_name = [],
           store_get = (\<lambda>k s. (Inl (Failure ''TypeError''), s)),
           store_set = (\<lambda>k val ttl s. (Inl (Failure ''TypeError''), s)),
           store_del = (\<lambda>k s. (Inl (Failure ''TypeError''), s)),
           store_reset = (\<lambda>s. (Inl (Failure ''TypeError''), s)),
           store_setMany = (\<lambda>kvs ttl s. (Inl (Failure ''TypeError''), s)),
           store_getMany = (\<lambda>ks s. (Inl (Failure ''TypeError''), s)),
           store_delMany = (\<lambda>ks s. (Inl (Failure ''TypeError''), s)),
           store_keys = (\<lambda>pattern s. (Inl (Failure ''TypeError''), s)),
           store_ttl = (\<lambda>k s. (Inl (Failure ''TypeError''), s)) \<rparr> \<rparr>"

text \<open>A world in which nothing has been called yet.\<close>

definition fresh :: "'s \<Rightarrow> ('s, 'v) world" where
  "fresh s = \<lparr>state = s, calls = [], unhandled = []\<rparr>"

text \<open>
  Producers: \<^verbatim>\<open>async () => x\<close>, \<^verbatim>\<open>async () => { throw new Error(msg) }\<close>, and the function
  that is not \<^verbatim>\<open>async\<close>, \<^verbatim>\<open>() => { throw new Error(msg) }\<close>.
\<close>

definition resolves :: "'v \<Rightarrow> ('s, 'v) producer" where
  "resolves x s = (Returns (Inr (Some x)), s)"

definition rejects :: "string \<Rightarrow> ('s, 'v) producer" where
  "rejects msg s = (Returns (Inl (Failure msg)), s)"

definition throws :: "string \<Rightarrow> ('s, 'v) producer" where
  "throws msg s = (Throws (Failure msg), s)"

text \<open>
  A stand-in for \<^verbatim>\<open>LRUCache\<close> in the examples: the entries (key, value, ttl), most recently
  used first, with no bound and no clock.
\<close>

definition listLru :: "((key \<times> 'v option \<times> Milliseconds) list, 'v) LRUCache" where
  "listLru =
     \<lparr> lru_get = (\<lambda>k c. case map_of c k of
                           None \<Rightarrow> (None, c)
                         | Some (x, d) \<Rightarrow> (x, (k, x, d) # filter (\<lambda>row. fst row \<noteq> k) c)),
       lru_set = (\<lambda>k val d c. case val of
                               None \<Rightarrow> filter (\<lambda>row. fst row \<noteq> k) c
                             | Some x \<Rightarrow> (k, val, d) # filter (\<lambda>row. fst row \<noteq> k) c),
       lru_delete = (\<lambda>k c. filter (\<lambda>row. fst row \<noteq> k) c),
       lru_clear = (\<lambda>c. []),
       lru_keys = (\<lambda>c. map fst c),
       lru_getRemainingTTL = (\<lambda>k c. case map_of c k of None \<Rightarrow> 0 | Some (x, d) \<Rightarrow> d) \<rparr>"

section \<open>Lemmas about the walk over the tiers and the fan-out\<close>

lemma upt_head: "[n..<n + Suc k] = n # [Suc n..<Suc n + k]"
  by (simp add: upt_conv_Cons del: upt_Suc)

lemma lookup_from_miss:
  "all_miss caches key (state w) \<Longrightarrow>
   lookup_from n caches key w =
     ((None, n + length caches),
      w\<lparr>state := after_gets caches key (state w),
        calls := calls w @ map (\<lambda>j. CacheGet j key) [n..<n + length caches]\<rparr>)"
proof (induction caches arbitrary: n w)
  case Nil
  then show ?case by simp
next
  case (Cons cache rest)
  obtain r s' where step: "cache_get cache key (state w) = (r, s')"
    by (cases "cache_get cache key (state w)")
  let ?w1 = "w\<lparr>state := s', calls := calls w @ [CacheGet n key]\<rparr>"
  from Cons.prems step have m: "missed r" and rest: "all_miss rest key (state ?w1)"
    by simp_all
  have unfold: "lookup_from n (cache # rest) key w = lookup_from (Suc n) rest key ?w1"
    using step m by (cases r rule: missed.cases) (simp_all add: invoke_def)
  have idx: "[n..<n + length (cache # rest)] = n # [Suc n..<Suc n + length rest]"
    using upt_head [of n "length rest"] by simp
  show ?case
    unfolding unfold Cons.IH [OF rest] idx
    using step by simp
qed

lemma lookup_from_hit:
  "found_at caches key (state w) i v \<Longrightarrow>
   lookup_from n caches key w =
     ((Some v, n + i),
      w\<lparr>state := snd (cache_get (caches ! i) key (after_gets (take i caches) key (state w))),
        calls := calls w @ map (\<lambda>j. CacheGet j key) [n..<n + Suc i]\<rparr>)"
proof (induction caches arbitrary: n w i)
  case Nil
  then show ?case by (simp add: found_at_def)
next
  case (Cons cache rest)
  obtain r s' where step: "cache_get cache key (state w) = (r, s')"
    by (cases "cache_get cache key (state w)")
  show ?case
  proof (cases i)
    case 0
    with Cons.prems step have "r = Inr (Some v)"
      by (simp add: found_at_def)
    with step 0 show ?thesis
      by (simp add: invoke_def)
  next
    case (Suc i')
    let ?w1 = "w\<lparr>state := s', calls := calls w @ [CacheGet n key]\<rparr>"
    from Cons.prems step Suc have m: "missed r" and rest: "found_at rest key (state ?w1) i' v"
      by (simp_all add: found_at_def)
    have unfold: "lookup_from n (cache # rest) key w = lookup_from (Suc n) rest key ?w1"
      using step m by (cases r rule: missed.cases) (simp_all add: invoke_def)
    have idx: "[n..<n + Suc i] = n # [Suc n..<Suc n + Suc i']"
      using upt_head [of n "Suc i'"] Suc by simp
    show ?thesis
      unfolding unfold Cons.IH [OF rest] idx
      using step Suc by simp
  qed
qed

lemma get_from_lookup:
  "get_from n caches key w =
     (Inr (fst (fst (lookup_from n caches key w))), snd (lookup_from n caches key w))"
  by (induction caches arbitrary: n w) (simp_all split: prod.splits sum.splits option.splits)

lemma miss_or_found:
  "all_miss caches key s \<or> (\<exists>i v. found_at caches key s i v)"
proof (induction caches arbitrary: s)
  case Nil
  then show ?case by simp
next
  case (Cons cache rest)
  show ?case
  proof (cases "missed (fst (cache_get cache key s))")
    case False
    then obtain v where "fst (cache_get cache key s) = Inr (Some v)"
      by (cases "fst (cache_get cache key s)" rule: missed.cases) simp_all
    then have "found_at (cache # rest) key s 0 v"
      by (simp add: found_at_def)
    then show ?thesis by blast
  next
    case True
    from Cons.IH [of "snd (cache_get cache key s)"] show ?thesis
    proof
      assume "all_miss rest key (snd (cache_get cache key s))"
      with True show ?thesis by simp
    next
      assume "\<exists>i v. found_at rest key (snd (cache_get cache key s)) i v"
      then obtain i v where "found_at rest key (snd (cache_get cache key s)) i v" by blast
      with True have "found_at (cache # rest) key s (Suc i) v"
        by (simp add: found_at_def)
      then show ?thesis by blast
    qed
  qed
qed




lemma invoke_unhandled: "unhandled (snd (invoke ev op w)) = unhandled w"
  by (simp add: invoke_def split: prod.splits)

lemma promiseAll_snd:
  "snd (promiseAll ((ev, op) # rest) w) = snd (promiseAll rest (snd (invoke ev op w)))"
  by (simp split: prod.splits)



lemma promiseAll_unhandled: "unhandled (snd (promiseAll ps w)) = unhandled w"
proof (induction ps arbitrary: w)
  case Nil
  then show ?case by simp
next
  case (Cons p ps)
  obtain ev op where p: "p = (ev, op)" by (cases p)
  show ?case
    unfolding p promiseAll_snd Cons.IH by (simp add: invoke_unhandled)
qed








lemma filter_write_gets: "filter is_write (map (\<lambda>j. CacheGet j key) js) = []"
  by (induction js) simp_all




text \<open>Unfolding sets for running the model on the examples.\<close>

lemmas run_defs =
  caching_wrap_def coalesceAsync_def invoke_def detach_def Let_def optional_ttl_def
  optional_refreshThreshold_def refresh_due_def no_refresh_def producerCalls_def writes_def
  fresh_def resolves_def rejects_def throws_def awaited_def

lemmas table_defs = tableStore_def table_get_def table_set_def table_ttl_def table_del_def

lemmas tier_defs =
  memoryCache_def caching_def tableStoreAt_def at_def failingCache_def found_at_def
  multiCaching_wrap_def multiCaching_get_def multiCaching_set_def multiCaching_getMany_def
  awaitAll_def quiet_def

lemmas lru_defs =
  createLruStore_def lru_store_setMany_def lru_store_keys_def config_isCacheable_def
  config_shouldCloneBeforeSet_def lruOpts_ttl_def clone_def listLru_def

lemma setMany_loop_stops:
  "k < length entries \<Longrightarrow> \<not> config_isCacheable args (snd (entries ! k)) \<Longrightarrow>
   (\<forall>j<k. config_isCacheable args (snd (entries ! j))) \<Longrightarrow>
   lru_store_setMany_loop lruCache args opt entries c =
     (Inl (NoCacheableValue (snd (entries ! k))),
      foldl (\<lambda>c' (key, val). lru_set lruCache key (if config_shouldCloneBeforeSet args then clone val else val) opt c')
        c (take k entries))"
proof (induction entries arbitrary: k c)
  case Nil
  then show ?case by simp
next
  case (Cons entry rest)
  obtain key val where entry: "entry = (key, val)" by (cases entry)
  show ?case
  proof (cases k)
    case 0
    with Cons.prems entry show ?thesis by simp
  next
    case (Suc k')
    from Cons.prems Suc have head: "config_isCacheable args val"
      using entry by auto
    from Cons.prems Suc have tail: "k' < length rest" "\<not> config_isCacheable args (snd (rest ! k'))"
      "\<forall>j<k'. config_isCacheable args (snd (rest ! j))"
      by auto
    show ?thesis
      using Cons.IH [OF tail] head entry Suc by simp
  qed
qed

section \<open>The single-tier cache\<close>




text \<open>
  Claim C2, as the code has it. The guard of the refresh is \<^verbatim>\<open>remainingTtl !== -1\<close>: on a
  hit for which the store reports a remaining lifetime of \<open>-1\<close>, whatever the threshold,
  \<^verbatim>\<open>wrap\<close> returns the cached value, invokes no producer and writes nothing.
\<close>

theorem no_expiry_never_refreshes:
  assumes hit: "store_get store key (state w) = (Inr (Some v), sa)"
    and no_expiry: "store_ttl store key sa = (Inr (- 1), sb)"
  shows "fst (caching_wrap store cacheOptions key fn options w) = Inr (Some v)
       \<and> producerCalls (snd (caching_wrap store cacheOptions key fn options w)) = producerCalls w
       \<and> writes (snd (caching_wrap store cacheOptions key fn options w)) = writes w
       \<and> unhandled (snd (caching_wrap store cacheOptions key fn options w)) = unhandled w"
  using hit no_expiry
  by (simp add: caching_wrap_def coalesceAsync_def invoke_def producerCalls_def writes_def
        split: option.splits)

theorem no_expiry_never_refreshes_witness:
  "store_get tableStore ''k'' (state (fresh [(''k'', 0::nat, - 1)])) = (Inr (Some 0), [(''k'', 0, - 1)])
   \<and> store_ttl tableStore ''k'' [(''k'', 0::nat, - 1)] = (Inr (- 1), [(''k'', 0, - 1)])
   \<and> fst (caching_wrap tableStore (Some \<lparr>refreshThreshold = Some 4000\<rparr>) ''k'' (resolves 1) None
            (fresh [(''k'', 0::nat, - 1)])) = Inr (Some 0)
   \<and> producerCalls (snd (caching_wrap tableStore (Some \<lparr>refreshThreshold = Some 4000\<rparr>) ''k'' (resolves 1) None
            (fresh [(''k'', 0::nat, - 1)]))) = 0
   \<and> writes (snd (caching_wrap tableStore (Some \<lparr>refreshThreshold = Some 4000\<rparr>) ''k'' (resolves 1) None
            (fresh [(''k'', 0::nat, - 1)]))) = []"
proof -
  have hit: "store_get tableStore ''k'' (state (fresh [(''k'', 0::nat, - 1)])) = (Inr (Some 0), [(''k'', 0, - 1)])"
    by (simp add: tableStore_def table_get_def fresh_def)
  have no_expiry: "store_ttl tableStore ''k'' [(''k'', 0::nat, - 1)] = (Inr (- 1), [(''k'', 0, - 1)])"
    by (simp add: tableStore_def table_ttl_def)
  from no_expiry_never_refreshes [where store = tableStore and key = "''k''"
      and w = "fresh [(''k'', 0, - 1)]" and v = 0 and sa = "[(''k'', 0, - 1)]" and sb = "[(''k'', 0, - 1)]"
      and cacheOptions = "Some \<lparr>refreshThreshold = Some 4000\<rparr>" and fn = "resolves 1" and options = None,
      OF hit no_expiry]
  show ?thesis
    by (simp add: run_defs table_defs)
qed

text \<open>
  Claim C2 as it is written does not hold: it speaks of any negative remaining lifetime. A
  store that reports \<open>-2\<close> passes the guard, \<open>-2\<close> is below the threshold, and the producer
  is invoked and its result written back.
\<close>

theorem negative_ttl_refreshes_counterexample:
  "store_ttl tableStore ''k'' [(''k'', 0::nat, - 2)] = (Inr (- 2), [(''k'', 0, - 2)])
   \<and> caching_wrap tableStore (Some \<lparr>refreshThreshold = Some 4000\<rparr>) ''k'' (resolves 1) None
        (fresh [(''k'', 0::nat, - 2)])
      = (Inr (Some 0),
         \<lparr>state = [(''k'', 1, - 1)],
          calls = [StoreGet ''k'', StoreTtl ''k'', Producer, StoreSet ''k'' (Some 1) None],
          unhandled = []\<rparr>)"
  by (simp add: run_defs table_defs)




section \<open>The tiered cache\<close>

text \<open>
  Claim C3 does not hold of the code. With the key \<open>a\<close> in tier 0 only and the key \<open>b\<close> in
  tier 1 only, tier 0 resolves \<open>a\<close>, and the batch read of tier 1 is still called with both
  keys: \<^verbatim>\<open>getMany\<close> passes the whole list of keys to every tier it visits.
\<close>

theorem getMany_asks_lower_tier_for_resolved_key:
  "fst (store_getMany (cache_store (memoryCache 0)) [''a'', ''b''] [ [(''a'', 1::nat, 5000)], [(''b'', 2, 5000)] ])
     = Inr [Some 1, None]
   \<and> multiCaching_getMany [memoryCache 0, memoryCache 1] [''a'', ''b'']
        (fresh [ [(''a'', 1::nat, 5000)], [(''b'', 2, 5000)] ])
     = (Inr [Slot (Some 1), Slot (Some 2)],
        \<lparr>state = [ [(''a'', 1, 5000)], [(''b'', 2, 5000)] ],
         calls = [GetMany 0 [''a'', ''b''], GetMany 1 [''a'', ''b''] ],
         unhandled = []\<rparr>)"
  by (simp add: tier_defs run_defs table_defs)

text \<open>
  Claim C4. Tiered \<^verbatim>\<open>get\<close> asks the tiers in the order of the list. When the tier of index
  \<open>i\<close> is the first to answer a defined value, the tiers before it having rejected or
  answered \<^verbatim>\<open>undefined\<close>, that value is returned and the tiers asked are those of index
  \<open>0\<close> to \<open>i\<close>. When every tier rejects or answers \<^verbatim>\<open>undefined\<close>, the result is
  \<^verbatim>\<open>undefined\<close>. In no case is the promise rejected.
\<close>

theorem multiCaching_get_first_defined:
  "(found_at caches key (state w) i v \<longrightarrow>
      fst (multiCaching_get caches key w) = Inr (Some v) \<and>
      calls (snd (multiCaching_get caches key w)) = calls w @ map (\<lambda>j. CacheGet j key) [0..<Suc i])
   \<and> (all_miss caches key (state w) \<longrightarrow>
      fst (multiCaching_get caches key w) = Inr None \<and>
      calls (snd (multiCaching_get caches key w)) = calls w @ map (\<lambda>j. CacheGet j key) [0..<length caches])
   \<and> (\<forall>e. fst (multiCaching_get caches key w) \<noteq> Inl e)"
proof (intro conjI impI allI)
  assume "found_at caches key (state w) i v"
  from lookup_from_hit [OF this, of 0]
  show "fst (multiCaching_get caches key w) = Inr (Some v)"
    and "calls (snd (multiCaching_get caches key w)) = calls w @ map (\<lambda>j. CacheGet j key) [0..<Suc i]"
    by (simp_all add: multiCaching_get_def get_from_lookup del: upt_Suc)
next
  assume "all_miss caches key (state w)"
  from lookup_from_miss [OF this, of 0]
  show "fst (multiCaching_get caches key w) = Inr None"
    and "calls (snd (multiCaching_get caches key w)) = calls w @ map (\<lambda>j. CacheGet j key) [0..<length caches]"
    by (simp_all add: multiCaching_get_def get_from_lookup)
next
  fix e
  show "fst (multiCaching_get caches key w) \<noteq> Inl e"
    by (simp add: multiCaching_get_def get_from_lookup)
qed

theorem multiCaching_get_first_defined_witness:
  "found_at [failingCache, memoryCache 1, memoryCache 2] ''k'' (state (fresh [ [], [], [(''k'', 5::nat, 100)] ])) 2 5
   \<and> fst (multiCaching_get [failingCache, memoryCache 1, memoryCache 2] ''k'' (fresh [ [], [], [(''k'', 5::nat, 100)] ]))
       = Inr (Some 5)
   \<and> calls (snd (multiCaching_get [failingCache, memoryCache 1, memoryCache 2] ''k'' (fresh [ [], [], [(''k'', 5::nat, 100)] ])))
       = [CacheGet 0 ''k'', CacheGet 1 ''k'', CacheGet 2 ''k'']
   \<and> all_miss [failingCache, failingCache] ''k'' (state (fresh ([] :: nat table list)))
   \<and> fst (multiCaching_get [failingCache, failingCache] ''k'' (fresh ([] :: nat table list))) = Inr None"
proof -
  have found: "found_at [failingCache, memoryCache 1, memoryCache 2] ''k'' (state (fresh [ [], [], [(''k'', 5::nat, 100)] ])) 2 5"
    by (simp add: tier_defs run_defs table_defs)
  have miss: "all_miss [failingCache, failingCache] ''k'' (state (fresh ([] :: nat table list)))"
    by (simp add: tier_defs run_defs)
  from multiCaching_get_first_defined [where caches = "[failingCache, memoryCache 1, memoryCache 2]"
      and key = "''k''" and w = "fresh [ [], [], [(''k'', 5::nat, 100)] ]" and i = 2 and v = 5]
    multiCaching_get_first_defined [where caches = "[failingCache, failingCache]"
      and key = "''k''" and w = "fresh ([] :: nat table list)" and i = 0 and v = 0]
  show ?thesis
    by (simp add: tier_defs run_defs table_defs numeral_2_eq_2 numeral_3_eq_3 upt_rec)
qed





text \<open>
  Claim C7. The key is absent and the producer fails. Single-tier \<^verbatim>\<open>wrap\<close> and tiered
  \<^verbatim>\<open>wrap\<close> both reject with the producer's error; the only calls are the reads and the
  producer, no write is issued, and the state is the one the producer left.
\<close>

theorem producer_failure_writes_nothing:
  assumes cold: "store_get store key (state w) = (Inr None, sa)"
    and failed: "awaited fn sa = (Inl e, sb)"
    and miss: "all_miss caches key' (state m)"
    and failed': "awaited fn' (after_gets caches key' (state m)) = (Inl e', s')"
  shows "caching_wrap store cacheOptions key fn options w =
           (Inl e, w\<lparr>state := sb, calls := calls w @ [StoreGet key, Producer]\<rparr>)
       \<and> writes (snd (caching_wrap store cacheOptions key fn options w)) = writes w
       \<and> multiCaching_wrap caches key' fn' options' m =
           (Inl e', m\<lparr>state := s', calls := calls m @ map (\<lambda>j. CacheGet j key') [0..<length caches] @ [Producer]\<rparr>)
       \<and> writes (snd (multiCaching_wrap caches key' fn' options' m)) = writes m"
proof -
  have single: "caching_wrap store cacheOptions key fn options w =
           (Inl e, w\<lparr>state := sb, calls := calls w @ [StoreGet key, Producer]\<rparr>)"
    using cold failed by (simp add: caching_wrap_def coalesceAsync_def invoke_def)
  have tiered: "multiCaching_wrap caches key' fn' options' m =
           (Inl e', m\<lparr>state := s', calls := calls m @ map (\<lambda>j. CacheGet j key') [0..<length caches] @ [Producer]\<rparr>)"
    using lookup_from_miss [OF miss, of 0] failed'
    by (simp add: multiCaching_wrap_def coalesceAsync_def invoke_def)
  show ?thesis
    unfolding single tiered by (simp add: writes_def filter_write_gets)
qed

theorem producer_failure_writes_nothing_witness:
  "store_get tableStore ''k'' (state (fresh ([] :: nat table))) = (Inr None, [])
   \<and> awaited (rejects ''boom'') ([] :: nat table) = (Inl (Failure ''boom'' :: nat error), [])
   \<and> all_miss [failingCache, memoryCache 1] ''k'' (state (fresh [ [], ([] :: nat table)]))
   \<and> awaited (rejects ''boom'') (after_gets [failingCache, memoryCache 1] ''k'' (state (fresh [ [], ([] :: nat table)])))
       = (Inl (Failure ''boom''), [ [], [] ])
   \<and> caching_wrap tableStore None ''k'' (rejects ''boom'') None (fresh ([] :: nat table))
       = (Inl (Failure ''boom''), \<lparr>state = [], calls = [StoreGet ''k'', Producer], unhandled = []\<rparr>)
   \<and> multiCaching_wrap [failingCache, memoryCache 1] ''k'' (rejects ''boom'') None (fresh [ [], ([] :: nat table)])
       = (Inl (Failure ''boom''),
          \<lparr>state = [ [], [] ], calls = [CacheGet 0 ''k'', CacheGet 1 ''k'', Producer], unhandled = []\<rparr>)"
proof -
  have cold: "store_get tableStore ''k'' (state (fresh ([] :: nat table))) = (Inr None, [])"
    by (simp add: run_defs table_defs)
  have failed: "awaited (rejects ''boom'') ([] :: nat table) = (Inl (Failure ''boom'' :: nat error), [])"
    by (simp add: rejects_def awaited_def)
  have miss: "all_miss [failingCache, memoryCache 1] ''k'' (state (fresh [ [], ([] :: nat table)]))"
    by (simp add: tier_defs run_defs table_defs)
  have failed': "awaited (rejects ''boom'') (after_gets [failingCache, memoryCache 1] ''k'' (state (fresh [ [], ([] :: nat table)])))
       = (Inl (Failure ''boom'' :: nat error), [ [], [] ])"
    by (simp add: tier_defs run_defs table_defs)
  from producer_failure_writes_nothing [where store = tableStore and key = "''k''" and w = "fresh ([] :: nat table)"
      and sa = "[]" and fn = "rejects ''boom''" and e = "Failure ''boom''" and sb = "[]"
      and caches = "[failingCache, memoryCache 1]" and key' = "''k''" and m = "fresh [ [], ([] :: nat table)]"
      and fn' = "rejects ''boom''" and e' = "Failure ''boom''" and s' = "[ [], [] ]"
      and cacheOptions = None and options = None and options' = None,
      OF cold failed miss failed']
  show ?thesis
    using cold failed miss failed' by (simp add: tier_defs run_defs table_defs)
qed

section \<open>The LRU store\<close>

text \<open>
  Claim C9. \<^verbatim>\<open>setMany\<close> of the LRU store is not atomic. When the entry at position \<open>k\<close> is
  the first whose value is not cacheable, \<^verbatim>\<open>setMany\<close> rejects with the error for that
  value, and the cache is the one obtained by setting the entries before position \<open>k\<close>, in
  order: they have been written, and no entry from position \<open>k\<close> on has.
\<close>

theorem setMany_stops_at_first_uncacheable:
  assumes "k < length entries"
    and "\<not> config_isCacheable args (snd (entries ! k))"
    and "\<forall>j<k. config_isCacheable args (snd (entries ! j))"
  shows "store_setMany (createLruStore lruCache args) entries ttl c =
     (Inl (NoCacheableValue (snd (entries ! k))),
      foldl (\<lambda>c' (key, val).
               lru_set lruCache key (if config_shouldCloneBeforeSet args then clone val else val)
                 (case ttl of Some t \<Rightarrow> t | None \<Rightarrow> lruOpts_ttl args) c')
        c (take k entries))"
  using setMany_loop_stops [OF assms]
  by (simp add: createLruStore_def lru_store_setMany_def)

theorem setMany_stops_at_first_uncacheable_witness:
  "(1::nat) < length [(''a'', Some (1::nat)), (''b'', None), (''c'', Some 3)]
   \<and> \<not> config_isCacheable None (snd ([(''a'', Some (1::nat)), (''b'', None), (''c'', Some 3)] ! 1))
   \<and> config_isCacheable None (snd ([(''a'', Some (1::nat)), (''b'', None), (''c'', Some 3)] ! 0))
   \<and> store_setMany (createLruStore listLru None) [(''a'', Some (1::nat)), (''b'', None), (''c'', Some 3)] (Some 100) []
       = (Inl (NoCacheableValue None), [(''a'', Some 1, 100)])"
proof -
  have a: "(1::nat) < length [(''a'', Some (1::nat)), (''b'', None), (''c'', Some 3)]"
    by simp
  have b: "\<not> config_isCacheable None (snd ([(''a'', Some (1::nat)), (''b'', None), (''c'', Some 3)] ! 1))"
    by (simp add: config_isCacheable_def)
  have c: "\<forall>j<1. config_isCacheable None (snd ([(''a'', Some (1::nat)), (''b'', None), (''c'', Some 3)] ! j))"
    by (simp add: config_isCacheable_def)
  from setMany_stops_at_first_uncacheable [where lruCache = listLru and ttl = "Some 100" and c = "[]", OF a b c]
  show ?thesis
    using a b c by (simp add: lru_defs)
qed

text \<open>
  Claim C10. \<^verbatim>\<open>keys\<close> of the LRU store does not look at its pattern: with any pattern it
  answers what it answers with none, the keys of the cache.
\<close>

theorem lru_keys_ignores_pattern:
  "store_keys (createLruStore lruCache args) pattern c = store_keys (createLruStore lruCache args) None c
   \<and> store_keys (createLruStore lruCache args) pattern c = (Inr (lru_keys lruCache c), c)"
  by (simp add: createLruStore_def lru_store_keys_def)

theorem lru_keys_ignores_pattern_witness:
  "store_keys (createLruStore listLru None) (Some ''a*'') [(''a'', Some (1::nat), 0), (''b'', Some 2, 0)]
     = (Inr [''a'', ''b''], [(''a'', Some 1, 0), (''b'', Some 2, 0)])"
  using lru_keys_ignores_pattern [where lruCache = listLru and args = None and pattern = "Some ''a*''"
      and c = "[(''a'', Some (1::nat), 0), (''b'', Some 2, 0)]"]
  by (simp add: lru_defs)

end
